theory Spec2Isabelle
  imports Complex_Main
begin

section \<open>Request throttler (class FirefishBTCApiClient, src/content.js)\<close>

text \<open>
  The client keeps \<open>requestHistory\<close>, an array of \<open>Date.now()\<close> stamps in milliseconds.
  Time stamps are modelled as \<open>int\<close>. \<open>slice(-5)\<close> keeps the last five elements of the
  array (all of them when there are fewer).
\<close>

definition slice_last :: "nat \<Rightarrow> 'a list \<Rightarrow> 'a list" where
  "slice_last n xs = drop (length xs - n) xs"

text \<open>\<open>recordRequest\<close> on the history alone: push, then shift once above ten entries.\<close>

definition recordRequest_history :: "int \<Rightarrow> int list \<Rightarrow> int list" where
  "recordRequest_history now h =
     (let h1 = h @ [now] in if length h1 > 10 then tl h1 else h1)"

text \<open>\<open>isRequestingTooFast\<close> (lines 888-904).\<close>

definition isRequestingTooFast :: "int list \<Rightarrow> int \<Rightarrow> bool" where
  "isRequestingTooFast requestHistory now =
     (if length requestHistory < 2 then False
      else
        let recentRequests = slice_last 5 requestHistory;
            thirtySecondsAgo = now - 30000;
            requestsInLast30s = length (filter (\<lambda>timestamp. timestamp > thirtySecondsAgo) recentRequests)
        in if requestsInLast30s > 5 then True else False)"

text \<open>
  The number of recorded stamps inside the trailing 30 seconds, counted over the whole
  history: the quantity the comment of \<open>isRequestingTooFast\<close> speaks of.
\<close>

definition stamps_in_last_30s :: "int list \<Rightarrow> int \<Rightarrow> nat" where
  "stamps_in_last_30s requestHistory now =
     length (filter (\<lambda>timestamp. timestamp > now - 30000) requestHistory)"

section \<open>JavaScript numbers\<close>

text \<open>
  A JavaScript number is modelled as an exact real, or one of the three special values of
  IEEE arithmetic that the code can produce by dividing by zero. The rounding of doubles
  and the sign of zero are not modelled.
\<close>

datatype jsnum = Num real | NaN | PosInf | NegInf



fun js_neg :: "jsnum \<Rightarrow> jsnum" where
  "js_neg (Num a) = Num (- a)"
| "js_neg NaN = NaN"
| "js_neg PosInf = NegInf"
| "js_neg NegInf = PosInf"

fun js_abs :: "jsnum \<Rightarrow> jsnum" where
  "js_abs (Num a) = Num \<bar>a\<bar>"
| "js_abs NaN = NaN"
| "js_abs PosInf = PosInf"
| "js_abs NegInf = PosInf"

fun js_add :: "jsnum \<Rightarrow> jsnum \<Rightarrow> jsnum" where
  "js_add (Num a) (Num b) = Num (a + b)"
| "js_add NaN _ = NaN"
| "js_add _ NaN = NaN"
| "js_add PosInf NegInf = NaN"
| "js_add NegInf PosInf = NaN"
| "js_add PosInf _ = PosInf"
| "js_add _ PosInf = PosInf"
| "js_add NegInf _ = NegInf"
| "js_add _ NegInf = NegInf"

definition js_sub :: "jsnum \<Rightarrow> jsnum \<Rightarrow> jsnum" where
  "js_sub a b = js_add a (js_neg b)"

text \<open>An infinity with the sign of a non-zero real.\<close>

definition inf_signed :: "bool \<Rightarrow> jsnum" where
  "inf_signed positive = (if positive then PosInf else NegInf)"

fun js_mul :: "jsnum \<Rightarrow> jsnum \<Rightarrow> jsnum" where
  "js_mul (Num a) (Num b) = Num (a * b)"
| "js_mul NaN _ = NaN"
| "js_mul _ NaN = NaN"
| "js_mul PosInf (Num b) = (if b = 0 then NaN else inf_signed (b > 0))"
| "js_mul NegInf (Num b) = (if b = 0 then NaN else inf_signed (b < 0))"
| "js_mul (Num a) PosInf = (if a = 0 then NaN else inf_signed (a > 0))"
| "js_mul (Num a) NegInf = (if a = 0 then NaN else inf_signed (a < 0))"
| "js_mul PosInf PosInf = PosInf"
| "js_mul NegInf NegInf = PosInf"
| "js_mul PosInf NegInf = NegInf"
| "js_mul NegInf PosInf = NegInf"

fun js_div :: "jsnum \<Rightarrow> jsnum \<Rightarrow> jsnum" where
  "js_div (Num a) (Num b) =
     (if b \<noteq> 0 then Num (a / b) else if a = 0 then NaN else inf_signed (a > 0))"
| "js_div NaN _ = NaN"
| "js_div _ NaN = NaN"
| "js_div (Num a) PosInf = Num 0"
| "js_div (Num a) NegInf = Num 0"
| "js_div PosInf (Num b) = inf_signed (b \<ge> 0)"
| "js_div NegInf (Num b) = inf_signed (b < 0)"
| "js_div PosInf PosInf = NaN"
| "js_div PosInf NegInf = NaN"
| "js_div NegInf PosInf = NaN"
| "js_div NegInf NegInf = NaN"

fun js_gt :: "jsnum \<Rightarrow> jsnum \<Rightarrow> bool" where
  "js_gt (Num a) (Num b) = (a > b)"
| "js_gt NaN _ = False"
| "js_gt _ NaN = False"
| "js_gt PosInf PosInf = False"
| "js_gt PosInf _ = True"
| "js_gt NegInf _ = False"
| "js_gt (Num a) PosInf = False"
| "js_gt (Num a) NegInf = True"

section \<open>Strings\<close>

text \<open>
  A string is a list of 8-bit characters. The operations below are the ones the source
  applies: \<open>split\<close> and \<open>join('')\<close> with a one-character separator, \<open>lastIndexOf\<close>
  (\<open>-1\<close> when absent), \<open>includes\<close>, \<open>trim\<close>, \<open>toLowerCase\<close>/\<open>toUpperCase\<close> on
  ASCII letters, and the global \<open>replace\<close> of one character.
\<close>

definition is_digit :: "char \<Rightarrow> bool" where
  "is_digit c = (c \<in> set ''0123456789'')"

definition digit_val :: "char \<Rightarrow> nat" where
  "digit_val c = of_char c - 48"

definition digits_val :: "string \<Rightarrow> nat" where
  "digits_val ds = foldl (\<lambda>acc c. 10 * acc + digit_val c) 0 ds"

definition is_space :: "char \<Rightarrow> bool" where
  "is_space c = (c \<in> set [CHR 0x20, CHR 0x09, CHR 0x0A, CHR 0x0B, CHR 0x0C, CHR 0x0D])"

definition trim :: "string \<Rightarrow> string" where
  "trim s = rev (dropWhile is_space (rev (dropWhile is_space s)))"

fun split_on :: "char \<Rightarrow> string \<Rightarrow> string list" where
  "split_on sep [] = [[]]"
| "split_on sep (c # cs) =
     (if c = sep then [] # split_on sep cs
      else (case split_on sep cs of
              [] \<Rightarrow> [[c]]
            | p # ps \<Rightarrow> (c # p) # ps))"

fun lastIndexOf :: "char \<Rightarrow> string \<Rightarrow> int" where
  "lastIndexOf ch [] = - 1"
| "lastIndexOf ch (c # cs) =
     (let r = lastIndexOf ch cs
      in if r \<ge> 0 then r + 1 else if c = ch then 0 else - 1)"

definition replace_all :: "char \<Rightarrow> char \<Rightarrow> string \<Rightarrow> string" where
  "replace_all a b s = map (\<lambda>c. if c = a then b else c) s"

definition starts_with :: "string \<Rightarrow> string \<Rightarrow> bool" where
  "starts_with s p = (take (length p) s = p)"

fun str_includes :: "string \<Rightarrow> string \<Rightarrow> bool" where
  "str_includes [] p = (p = [])"
| "str_includes (c # cs) p = (starts_with (c # cs) p \<or> str_includes cs p)"

definition toLowerCase_char :: "char \<Rightarrow> char" where
  "toLowerCase_char c =
     (case map_of (zip ''ABCDEFGHIJKLMNOPQRSTUVWXYZ'' ''abcdefghijklmnopqrstuvwxyz'') c of
        None \<Rightarrow> c | Some l \<Rightarrow> l)"


definition toLowerCase :: "string \<Rightarrow> string" where
  "toLowerCase s = map toLowerCase_char s"


section \<open>Input normalizer: utils.parseNumberFromText (lines 109-189)\<close>

text \<open>
  \<open>parseFloat\<close> on the strings that \<open>parseNumberFromText\<close> hands it. Those contain only
  digits, \<open>.\<close>, \<open>,\<close> and \<open>-\<close> (everything else has been removed), so neither an exponent
  nor \<open>Infinity\<close> nor leading white space can occur: the longest numeric prefix is an
  optional sign, digits, and optionally a dot with digits, with at least one digit in all.
\<close>

definition parseFloat :: "string \<Rightarrow> jsnum" where
  "parseFloat s =
     (let negative = (case s of [] \<Rightarrow> False | c # _ \<Rightarrow> c = CHR ''-'');
          r = (case s of [] \<Rightarrow> [] | c # cs \<Rightarrow> if c = CHR ''-'' \<or> c = CHR ''+'' then cs else s);
          ip = takeWhile is_digit r;
          r1 = dropWhile is_digit r;
          fp = (case r1 of [] \<Rightarrow> [] | c # cs \<Rightarrow> if c = CHR ''.'' then takeWhile is_digit cs else [])
      in if ip = [] \<and> fp = [] then NaN
         else Num ((if negative then - 1 else 1) *
                   (real (digits_val ip) + real (digits_val fp) / 10 ^ length fp)))"

text \<open>\<open>s.replace(/[^0-9.,-]/g, '')\<close>.\<close>

definition keep_numeric :: "string \<Rightarrow> string" where
  "keep_numeric s = filter (\<lambda>c. c \<in> set ''0123456789.,-'') s"

text \<open>\<open>(str.match(new RegExp(`\\${ch}`, 'g')) || []).length\<close>.\<close>

definition count_char :: "string \<Rightarrow> char \<Rightarrow> nat" where
  "count_char str ch = length (filter (\<lambda>c. c = ch) str)"

text \<open>\<open>str.split(sep).join('')\<close>.\<close>

definition stripThousands :: "string \<Rightarrow> char \<Rightarrow> string" where
  "stripThousands str sep = concat (split_on sep str)"

text \<open>\<open>s.replace(/(?!^)-/g, '')\<close>: every minus sign except one at position 0 goes.\<close>

definition strip_inner_minus :: "string \<Rightarrow> string" where
  "strip_inner_minus s = (case s of [] \<Rightarrow> [] | c # cs \<Rightarrow> c # filter (\<lambda>x. x \<noteq> CHR ''-'') cs)"

text \<open>
  \<open>parts.pop()\<close> takes the last element of \<open>parts\<close>; \<open>split\<close> never returns an empty
  array (lemma \<open>split_on_not_Nil\<close>), so \<open>last\<close> and \<open>butlast\<close> are what \<open>pop\<close> returns
  and leaves.
\<close>

definition parseNumberFromText :: "string \<Rightarrow> jsnum" where
  "parseNumberFromText text =
     (if text = [] then NaN
      else
        let s = keep_numeric (trim text) in
        if s = [] then NaN
        else
          let commas = count_char s (CHR '','');
              dots = count_char s (CHR ''.'')
          in
          if commas > 0 \<and> dots > 0 then
            (let lastComma = lastIndexOf (CHR '','') s;
                 lastDot = lastIndexOf (CHR ''.'') s;
                 decimalSep = (if lastComma > lastDot then CHR '','' else CHR ''.'');
                 thousandsSep = (if decimalSep = CHR '','' then CHR ''.'' else CHR '','');
                 s1 = stripThousands s thousandsSep;
                 parts = split_on decimalSep s1;
                 decimalPart = last parts;
                 s2 = concat (butlast parts) @ [decimalSep] @ decimalPart;
                 s3 = (if decimalSep = CHR '','' then replace_all (CHR '','') (CHR ''.'') s2 else s2)
             in parseFloat (strip_inner_minus s3))
          else if commas > 0 \<and> dots = 0 then
            (let lastc = lastIndexOf (CHR '','') s;
                 trailing = int (length s) - lastc - 1
             in
             if trailing = 3 then parseFloat (strip_inner_minus (stripThousands s (CHR '','')))
             else
               let parts = split_on (CHR '','') s;
                   dec = last parts
               in
               if commas > 1 \<and> length dec = 2
               then parseFloat (strip_inner_minus (concat (butlast parts) @ ''.'' @ dec))
               else parseFloat (strip_inner_minus (replace_all (CHR '','') (CHR ''.'') s)))
          else if dots > 0 \<and> commas = 0 then
            (let lastd = lastIndexOf (CHR ''.'') s;
                 trailing = int (length s) - lastd - 1
             in
             if trailing = 3 then parseFloat (strip_inner_minus (stripThousands s (CHR ''.'')))
             else parseFloat (strip_inner_minus s))
          else parseFloat (strip_inner_minus s))"

text \<open>
  The rule as the specification words it, for a cleaned string holding both separators:
  the rightmost separator occurrence is the decimal point, every separator before it is
  grouping and is dropped. \<open>rightmost_sep\<close> is the index of that occurrence.
\<close>

definition is_sep :: "char \<Rightarrow> bool" where
  "is_sep c = (c = CHR '','' \<or> c = CHR ''.'')"

definition rightmost_sep :: "string \<Rightarrow> nat" where
  "rightmost_sep s = nat (max (lastIndexOf (CHR '','') s) (lastIndexOf (CHR ''.'') s))"

definition spec_rightmost_decimal :: "string \<Rightarrow> string" where
  "spec_rightmost_decimal s =
     filter (\<lambda>c. \<not> is_sep c) (take (rightmost_sep s) s) @ ''.'' @ drop (Suc (rightmost_sep s)) s"

section \<open>Performance calculator: cryptoService.calculateFirefishBTCPerformance (lines 1087-1165)\<close>

text \<open>
  The record that \<open>extractFirefishLoanData\<close> returns. Its numeric fields come out of
  \<open>parseFloat\<close> and pass the extractor's validation, so they are finite numbers.
\<close>

record loan =
  currency :: string
  loanAmount :: real
  interestRate :: real
  provisionDate :: string
  collateralBTC :: real

text \<open>
  The object the calculator returns: the formatted strings that the result widget shows,
  the flag, the label, and the \<open>raw\<close> numbers. The percentage strings built with
  \<open>toFixed\<close> are left out (they are not shown and \<open>toFixed(1)\<close> does not throw on a
  number).
\<close>

record performance =
  btcValueChange_text :: string
  loanInterestCost_text :: string
  theoreticalResult_text :: string
  theoreticalLabel :: string
  initialBTCPrice_text :: string
  currentBTCPrice_text :: string
  isOutperforming :: bool
  raw_btcValueChange :: jsnum
  raw_btcPercentageChange :: jsnum
  raw_loanInterestCost :: jsnum
  raw_historicalPrice :: jsnum
  raw_currentPrice :: jsnum
  raw_theoreticalResult :: jsnum

text \<open>
  \<open>formatCurrency\<close> calls \<open>new Intl.NumberFormat('en-DE', {style: 'currency', currency})\<close>
  of the browser, which is not part of the repository: it is the parameter \<open>fmt\<close>, from a
  currency code and a number to the formatted string, \<open>None\<close> when the constructor throws
  (a RangeError on a malformed currency code). Any exception inside the calculator is
  caught and turned into \<open>null\<close>, here \<open>None\<close>. The fields are formatted in the order of
  the object literal.
\<close>

definition calculateFirefishBTCPerformance ::
  "(string \<Rightarrow> jsnum \<Rightarrow> string option) \<Rightarrow> loan \<Rightarrow> jsnum \<Rightarrow> jsnum \<Rightarrow> performance option" where
  "calculateFirefishBTCPerformance fmt loanData currentPrice historicalPrice =
     (let btcValueChange =
            js_mul (Num (loanAmount loanData)) (js_sub (js_div currentPrice historicalPrice) (Num 1));
          btcPercentageChange =
            js_mul (js_div (js_sub currentPrice historicalPrice) historicalPrice) (Num 100);
          loanInterestCost =
            js_mul (Num (loanAmount loanData)) (js_div (Num (interestRate loanData)) (Num 100));
          outperforming = js_gt btcValueChange loanInterestCost;
          theoreticalResult = js_sub btcValueChange loanInterestCost;
          label = (if js_gt theoreticalResult (Num 0) then ''Theoretical Gain'' else ''Theoretical Loss'');
          theoreticalValue = js_abs theoreticalResult
      in
      case fmt (currency loanData) btcValueChange of None \<Rightarrow> None | Some t1 \<Rightarrow>
      case fmt (currency loanData) loanInterestCost of None \<Rightarrow> None | Some t2 \<Rightarrow>
      case fmt (currency loanData) theoreticalValue of None \<Rightarrow> None | Some t3 \<Rightarrow>
      case fmt (currency loanData) historicalPrice of None \<Rightarrow> None | Some t4 \<Rightarrow>
      case fmt (currency loanData) currentPrice of None \<Rightarrow> None | Some t5 \<Rightarrow>
        Some \<lparr> btcValueChange_text = t1,
               loanInterestCost_text = t2,
               theoreticalResult_text = t3,
               theoreticalLabel = label,
               initialBTCPrice_text = t4,
               currentBTCPrice_text = t5,
               isOutperforming = outperforming,
               raw_btcValueChange = btcValueChange,
               raw_btcPercentageChange = btcPercentageChange,
               raw_loanInterestCost = loanInterestCost,
               raw_historicalPrice = historicalPrice,
               raw_currentPrice = currentPrice,
               raw_theoreticalResult = theoreticalResult \<rparr>)"

section \<open>The rendered loan cards\<close>

text \<open>
  What the core reads and writes of a loan card element (\<open>._activeCard_fvh4n_5\<close>):
  \<^item> \<open>bodyTexts\<close>: the text contents of its \<open>.ant-card-body\<close> elements;
  \<^item> \<open>amountText\<close>: the text of its \<open>._amount_148t9_34\<close> element, when there is one;
  \<^item> \<open>hasDetails\<close>: whether it has the details section after which widgets are inserted;
  \<^item> \<open>extracted\<close>: what \<open>extractFirefishLoanData\<close> returns for it (\<open>None\<close> for \<open>null\<close>);
    the extraction itself is parsing of the host page and is taken as given;
  \<^item> \<open>processed\<close>: \<open>dataset.firefishBtcProcessed === 'true'\<close>;
  \<^item> \<open>displays\<close>: the widgets injected so far, in document order (the newest first,
    since each is inserted right after the details section).
  A results widget carries its performance class and the texts of its
  \<open>._fieldValue_1gfcb_41\<close> cells. A rate-limit widget wraps a \<open>.firefish-btc-loading\<close>
  element (the flag says whether it is still there) and shows the seconds to wait.
\<close>

datatype display =
    LoadingDiv
  | ResultsDiv bool "string list"
  | ErrorDiv string
  | RateLimitedDiv bool int

record card_view =
  bodyTexts :: "string list"
  amountText :: "string option"
  hasDetails :: bool
  extracted :: "loan option"
  processed :: bool
  displays :: "display list"

fun is_results :: "display \<Rightarrow> bool" where
  "is_results (ResultsDiv _ _) = True"
| "is_results _ = False"

fun is_error :: "display \<Rightarrow> bool" where
  "is_error (ErrorDiv _) = True"
| "is_error _ = False"

fun is_rate_limited :: "display \<Rightarrow> bool" where
  "is_rate_limited (RateLimitedDiv _ _) = True"
| "is_rate_limited _ = False"

text \<open>Whether the widget is, or contains, a \<open>.firefish-btc-loading\<close> element.\<close>

fun has_loading :: "display \<Rightarrow> bool" where
  "has_loading LoadingDiv = True"
| "has_loading (RateLimitedDiv inner _) = inner"
| "has_loading _ = False"

text \<open>
  \<open>querySelectorAll('.firefish-btc-loading, .firefish-btc-results').forEach(d => d.remove())\<close>
  and the same with \<open>.firefish-btc-error\<close> added.
\<close>

fun remove_loading_results :: "display list \<Rightarrow> display list" where
  "remove_loading_results [] = []"
| "remove_loading_results (LoadingDiv # ds) = remove_loading_results ds"
| "remove_loading_results (ResultsDiv _ _ # ds) = remove_loading_results ds"
| "remove_loading_results (RateLimitedDiv _ n # ds) = RateLimitedDiv False n # remove_loading_results ds"
| "remove_loading_results (ErrorDiv m # ds) = ErrorDiv m # remove_loading_results ds"

definition remove_loading_results_error :: "display list \<Rightarrow> display list" where
  "remove_loading_results_error ds = filter (\<lambda>d. \<not> is_error d) (remove_loading_results ds)"

text \<open>Insertion after the details section, when the card has one.\<close>

definition insert_display :: "display \<Rightarrow> card_view \<Rightarrow> display list \<Rightarrow> display list" where
  "insert_display d cv ds = (if hasDetails cv then d # ds else ds)"

text \<open>
  The four widget writers (lines 1370-1470, 614-633, 2092-2110). Each of them ends by
  refreshing the portfolio dashboard, which only reads the cards.
\<close>

definition showFirefishLoadingState :: "card_view \<Rightarrow> card_view" where
  "showFirefishLoadingState cv =
     (if list_ex (\<lambda>d. has_loading d \<or> is_results d) (displays cv) then cv
      else cv\<lparr>displays := insert_display LoadingDiv cv (remove_loading_results_error (displays cv))\<rparr>)"

definition results_widget :: "performance \<Rightarrow> display" where
  "results_widget perf =
     ResultsDiv (isOutperforming perf)
       [(if isOutperforming perf then ''Outperforming'' else ''Underperforming''),
        initialBTCPrice_text perf,
        currentBTCPrice_text perf,
        btcValueChange_text perf,
        loanInterestCost_text perf,
        theoreticalResult_text perf]"

definition showFirefishBTCResults :: "card_view \<Rightarrow> performance \<Rightarrow> card_view" where
  "showFirefishBTCResults cv perf =
     cv\<lparr>displays := insert_display (results_widget perf) cv (remove_loading_results (displays cv))\<rparr>"

definition showFirefishError :: "card_view \<Rightarrow> string \<Rightarrow> card_view" where
  "showFirefishError cv errorMessage =
     cv\<lparr>displays := insert_display (ErrorDiv errorMessage) cv (remove_loading_results (displays cv))\<rparr>"

definition showRateLimitMessage :: "card_view \<Rightarrow> int \<Rightarrow> card_view" where
  "showRateLimitMessage cv seconds =
     cv\<lparr>displays := insert_display (RateLimitedDiv True seconds) cv
                       (remove_loading_results_error (displays cv))\<rparr>"

text \<open>\<open>card.querySelector('.firefish-btc-rate-limited')?.remove()\<close>: the first one goes.\<close>

fun remove_first_rate_limited :: "display list \<Rightarrow> display list" where
  "remove_first_rate_limited [] = []"
| "remove_first_rate_limited (d # ds) =
     (if is_rate_limited d then ds else d # remove_first_rate_limited ds)"

section \<open>Portfolio aggregator: uiEnhancer.aggregatePortfolioData (lines 1546-1603)\<close>









section \<open>Shared state: priceCache, rateLimitState, the client, the analyzer, pending timers\<close>

text \<open>
  A loan card element is identified by a number. The price service answers a request with
  an HTTP status and a body, or the request throws (a network failure, or a body that is
  not JSON) with a message. The body of the current-price answer is \<open>data.bitcoin\<close>, a
  map from currency to price (\<open>None\<close> when the key is missing); the body of the
  historical answer is \<open>data.market_data.current_price\<close> (\<open>None\<close> when \<open>market_data\<close>
  or \<open>current_price\<close> is missing, so that reading it throws a TypeError).
\<close>

type_synonym card = nat

type_synonym prices = "string \<rightharpoonup> real"

datatype 'a fetch_result = Throws string | Response nat 'a

definition response_ok :: "nat \<Rightarrow> bool" where
  "response_ok status = (200 \<le> status \<and> status \<le> 299)"

text \<open>What \<open>getHistoricalPrice\<close> returns: \<open>null\<close>, \<open>undefined\<close> or a number.\<close>

datatype price_result = PriceNull | PriceUndefined | PriceNum real

fun truthy :: "price_result \<Rightarrow> bool" where
  "truthy (PriceNum p) = (p \<noteq> 0)"
| "truthy _ = False"

fun price_number :: "price_result \<Rightarrow> jsnum" where
  "price_number (PriceNum p) = Num p"
| "price_number PriceNull = Num 0"
| "price_number PriceUndefined = NaN"

fun price_of_entry :: "real option \<Rightarrow> price_result" where
  "price_of_entry None = PriceUndefined"
| "price_of_entry (Some p) = PriceNum p"

record hist_entry =
  entry_price :: "real option"
  entry_timestamp :: int

text \<open>
  A pending timer of the event loop: its id, the time it is due, and which closure of the
  source it runs: the one-second countdown interval and the cooldown timeout of
  \<open>startRateLimitCountdown\<close>, or the one-second delay after which the registered
  resolution callback calls \<open>processPendingCards\<close> (lines 2737-2743).
\<close>

datatype timer_action = CountdownTick | RetryTimeout | ProcessPending

record timer =
  tm_id :: nat
  tm_due :: int
  tm_action :: timer_action

text \<open>
  The state. \<open>onRateLimitResolved\<close> says whether the callback has been registered (the
  source registers one callback only, in \<open>initializeDefensively\<close>). \<open>fetchLog\<close> and
  \<open>resolvedLog\<close> are not variables of the source: they record the URL of every \<open>fetch\<close>
  and the time of every invocation of the resolution callback, so that theorems can speak
  of them.
\<close>

record state =
  current_data :: "prices option"
  current_timestamp :: "int option"
  historical :: "string \<rightharpoonup> hist_entry"
  apiBlocked :: bool
  blockedUntil :: "int option"
  isRateLimited :: bool
  rateLimitedAt :: "int option"
  retryTimeout :: "nat option"
  countdownInterval :: "nat option"
  pendingCards :: "card list"
  onRateLimitResolved :: bool
  lastRequest :: int
  requestHistory :: "int list"
  processingQueue :: "card list"
  timers :: "timer list"
  nextTimerId :: nat
  cards :: "card \<Rightarrow> card_view"
  fetchLog :: "string list"
  resolvedLog :: "int list"

definition RATE_LIMIT_COOLDOWN :: int where
  "RATE_LIMIT_COOLDOWN = 60 * 1000"

definition CURRENT_PRICE_DURATION :: int where
  "CURRENT_PRICE_DURATION = 15 * 60 * 1000"

text \<open>A JavaScript \<open>Set\<close> of cards, in insertion order.\<close>

definition set_add :: "card \<Rightarrow> card list \<Rightarrow> card list" where
  "set_add c xs = (if c \<in> set xs then xs else xs @ [c])"

definition set_delete :: "card \<Rightarrow> card list \<Rightarrow> card list" where
  "set_delete c xs = filter (\<lambda>x. x \<noteq> c) xs"

definition initial_state :: "(card \<Rightarrow> card_view) \<Rightarrow> state" where
  "initial_state page =
     \<lparr> current_data = None, current_timestamp = None, historical = Map.empty,
       apiBlocked = False, blockedUntil = None,
       isRateLimited = False, rateLimitedAt = None, retryTimeout = None,
       countdownInterval = None, pendingCards = [], onRateLimitResolved = False,
       lastRequest = 0, requestHistory = [],
       processingQueue = [],
       timers = [], nextTimerId = 1,
       cards = page,
       fetchLog = [], resolvedLog = [] \<rparr>"

definition setRateLimitCallback :: "state \<Rightarrow> state" where
  "setRateLimitCallback st = st\<lparr>onRateLimitResolved := True\<rparr>"

subsection \<open>Timers\<close>

text \<open>
  \<open>setTimeout\<close>/\<open>setInterval\<close> append a timer with a fresh id (the id returned is
  \<open>nextTimerId\<close> of the state before); \<open>clearTimeout\<close>/\<open>clearInterval\<close> remove the timer
  with the given id.
\<close>

definition schedule :: "int \<Rightarrow> timer_action \<Rightarrow> state \<Rightarrow> state" where
  "schedule due_at act st =
     st\<lparr>timers := timers st @ [\<lparr>tm_id = nextTimerId st, tm_due = due_at, tm_action = act\<rparr>],
        nextTimerId := Suc (nextTimerId st)\<rparr>"

definition clearTimer :: "nat \<Rightarrow> state \<Rightarrow> state" where
  "clearTimer i st = st\<lparr>timers := filter (\<lambda>t. tm_id t \<noteq> i) (timers st)\<rparr>"

subsection \<open>Rate-limit coordinator (lines 557-679)\<close>

text \<open>Rewriting one card; \<open>updateRateLimitDisplay\<close> is a \<open>forEach\<close> over the pending cards.\<close>

definition update_card :: "card \<Rightarrow> (card_view \<Rightarrow> card_view) \<Rightarrow> state \<Rightarrow> state" where
  "update_card c f st = st\<lparr>cards := (cards st)(c := f (cards st c))\<rparr>"

definition updateRateLimitDisplay :: "int \<Rightarrow> state \<Rightarrow> state" where
  "updateRateLimitDisplay seconds st =
     foldl (\<lambda>s c. update_card c (\<lambda>cv. showRateLimitMessage cv seconds) s) st (pendingCards st)"

definition startRateLimitCountdown :: "int \<Rightarrow> state \<Rightarrow> state" where
  "startRateLimitCountdown now st =
     (let st1 = (case countdownInterval st of None \<Rightarrow> st | Some i \<Rightarrow> clearTimer i st);
          st2 = st1\<lparr>isRateLimited := True, rateLimitedAt := Some now\<rparr>;
          st3 = updateRateLimitDisplay 60 st2;
          st4 = (schedule (now + 1000) CountdownTick st3)\<lparr>countdownInterval := Some (nextTimerId st3)\<rparr>;
          st5 = (schedule (now + RATE_LIMIT_COOLDOWN) RetryTimeout st4)\<lparr>retryTimeout := Some (nextTimerId st4)\<rparr>
      in st5)"

definition resolveRateLimit :: "int \<Rightarrow> state \<Rightarrow> state" where
  "resolveRateLimit now st =
     (let st1 = (case countdownInterval st of None \<Rightarrow> st
                 | Some i \<Rightarrow> (clearTimer i st)\<lparr>countdownInterval := None\<rparr>);
          st2 = (case retryTimeout st1 of None \<Rightarrow> st1
                 | Some i \<Rightarrow> (clearTimer i st1)\<lparr>retryTimeout := None\<rparr>);
          st3 = st2\<lparr>isRateLimited := False, rateLimitedAt := None\<rparr>;
          st4 = foldl (\<lambda>s c. update_card c
                                (\<lambda>cv. cv\<lparr>displays := remove_first_rate_limited (displays cv)\<rparr>) s)
                      st3 (pendingCards st3)
      in if onRateLimitResolved st4
         then (schedule (now + 1000) ProcessPending st4)\<lparr>resolvedLog := resolvedLog st4 @ [now]\<rparr>
         else st4)"

definition addPendingCard :: "card \<Rightarrow> state \<Rightarrow> state" where
  "addPendingCard loanCard st =
     (let st1 = st\<lparr>pendingCards := set_add loanCard (pendingCards st)\<rparr>
      in if isRateLimited st1
         then update_card loanCard (\<lambda>cv. showRateLimitMessage cv 60) st1
         else st1)"

definition removePendingCard :: "card \<Rightarrow> state \<Rightarrow> state" where
  "removePendingCard loanCard st = st\<lparr>pendingCards := set_delete loanCard (pendingCards st)\<rparr>"

subsection \<open>Request bookkeeping and throttle detection (lines 853-967)\<close>

definition recordRequest :: "int \<Rightarrow> state \<Rightarrow> state" where
  "recordRequest now st =
     st\<lparr>lastRequest := now, requestHistory := recordRequest_history now (requestHistory st)\<rparr>"

definition getRecentRequestCount :: "int \<Rightarrow> state \<Rightarrow> nat \<times> state" where
  "getRecentRequestCount now st =
     (let h = filter (\<lambda>timestamp. now - timestamp < 60000) (requestHistory st)
      in (length h, st\<lparr>requestHistory := h\<rparr>))"

definition rateLimitIndicators :: "string list" where
  "rateLimitIndicators =
     [''429'', ''too many requests'', ''rate limit'', ''quota exceeded'',
      ''failed to fetch'', ''network error'', ''cors policy'']"

definition detectRateLimitFromError :: "string \<Rightarrow> int \<Rightarrow> state \<Rightarrow> bool \<times> state" where
  "detectRateLimitFromError errorMessage now st =
     (let errorLower = toLowerCase errorMessage;
          hasRateLimitIndicator = list_ex (\<lambda>indicator. str_includes errorLower indicator) rateLimitIndicators;
          (recentRequests, st1) = getRecentRequestCount now st;
          likelyRateLimited = (recentRequests > 3);
          tooFast = isRequestingTooFast (requestHistory st1) now
      in (hasRateLimitIndicator \<or> likelyRateLimited \<or> tooFast, st1))"

text \<open>
  \<open>handleRateLimit(error)\<close> evaluates \<open>error.status === 429 || error.message.includes(...)\<close>.
  Both callers pass \<open>{status: response.status}\<close>, an object without \<open>message\<close>, so for a
  status other than 429 the second operand throws a TypeError; the result is the message
  of the exception (\<open>Inl\<close>) or the value returned with the new state.
\<close>

definition typeError_includes :: string where
  "typeError_includes = ''Cannot read properties of undefined (reading 'includes')''"

definition typeError_current_price :: string where
  "typeError_current_price = ''Cannot read properties of undefined (reading 'current_price')''"

definition handleRateLimit :: "nat \<Rightarrow> int \<Rightarrow> state \<Rightarrow> string + bool \<times> state" where
  "handleRateLimit status now st =
     (if status = 429
      then Inr (True, st\<lparr>apiBlocked := True, blockedUntil := Some (now + RATE_LIMIT_COOLDOWN)\<rparr>)
      else Inl typeError_includes)"

subsection \<open>Dates and cache keys (lines 681-696, 768)\<close>

definition months :: "(string \<times> string) list" where
  "months =
     [(''Jan'', ''01''), (''Feb'', ''02''), (''Mar'', ''03''), (''Apr'', ''04''),
      (''May'', ''05''), (''Jun'', ''06''), (''Jul'', ''07''), (''Aug'', ''08''),
      (''Sep'', ''09''), (''Oct'', ''10''), (''Nov'', ''11''), (''Dec'', ''12'')]"

definition padStart2 :: "string \<Rightarrow> string" where
  "padStart2 s = replicate (2 - length s) (CHR ''0'') @ s"

definition convertFirefishDateToCoinGecko :: "string \<Rightarrow> string option" where
  "convertFirefishDateToCoinGecko firefishDate =
     (case split_on (CHR '' '') firefishDate of
        [d, m, y] \<Rightarrow>
          (case map_of months m of
             None \<Rightarrow> None
           | Some month \<Rightarrow> Some (padStart2 d @ ''-'' @ month @ ''-'' @ y))
      | _ \<Rightarrow> None)"

definition cacheKey :: "string \<Rightarrow> string \<Rightarrow> string" where
  "cacheKey coinGeckoDate cur = coinGeckoDate @ ''_'' @ toLowerCase cur"

subsection \<open>Current prices (lines 698-762, 945-949)\<close>

definition isCurrentPriceCacheValid :: "int \<Rightarrow> state \<Rightarrow> bool" where
  "isCurrentPriceCacheValid now st =
     (current_data st \<noteq> None \<and>
      (case current_timestamp st of
         None \<Rightarrow> False
       | Some t \<Rightarrow> t \<noteq> 0 \<and> now - t < CURRENT_PRICE_DURATION))"

text \<open>
  The \<open>catch\<close> block of \<open>getCurrentPriceForAllCurrencies\<close>: it returns \<open>null\<close> either
  way, after starting the countdown when throttling is detected and none is running.
\<close>

definition currentPrices_catch :: "string \<Rightarrow> int \<Rightarrow> state \<Rightarrow> prices option \<times> state" where
  "currentPrices_catch errorMessage now st =
     (let (limited, st1) = detectRateLimitFromError errorMessage now st
      in if limited
         then (None, if \<not> isRateLimited st1 then startRateLimitCountdown now st1 else st1)
         else (None, st1))"

text \<open>
  \<open>getCurrentPriceForAllCurrencies\<close> in three parts: the cache check; the bookkeeping
  before the request (\<open>recordRequest\<close>, and the request itself in \<open>fetchLog\<close>); the
  code after \<open>await fetch(...)\<close>, given the answer of the service. The waits of
  \<open>checkRateLimit\<close> and \<open>addRequestDelay\<close> only delay the call and are not modelled;
  \<open>now\<close> stands for \<open>Date.now()\<close>. In the branch for a status that is neither ok nor
  429, \<open>handleRateLimit\<close> throws (see above) and control passes to the \<open>catch\<close>
  block, so the retry and the \<open>throw new Error\<close> after it are never reached: the
  \<open>Inr\<close> branch of that case is there for totality only and is never taken (lemma
  \<open>handleRateLimit_not_429\<close>).
\<close>

definition currentPrices_request :: "int \<Rightarrow> state \<Rightarrow> state" where
  "currentPrices_request now st =
     (recordRequest now st)
       \<lparr>fetchLog := fetchLog st @
          [''https://api.coingecko.com/api/v3/simple/price?ids=bitcoin&vs_currencies=eur,usd,chf,czk'']\<rparr>"

definition currentPrices_response ::
  "int \<Rightarrow> prices option fetch_result \<Rightarrow> state \<Rightarrow> prices option \<times> state" where
  "currentPrices_response now answer st1 =
     (case answer of
        Throws errorMessage \<Rightarrow> currentPrices_catch errorMessage now st1
      | Response status body \<Rightarrow>
          if \<not> response_ok status then
            (if status = 429 then (None, startRateLimitCountdown now st1)
             else (case handleRateLimit status now st1 of
                     Inl errorMessage \<Rightarrow> currentPrices_catch errorMessage now st1
                   | Inr (_, st2) \<Rightarrow> (None, st2)))
          else (body, st1\<lparr>current_data := body, current_timestamp := Some now\<rparr>))"

text \<open>One whole call, given the answer of the service to the request it may issue.\<close>

definition getCurrentPriceForAllCurrencies ::
  "int \<Rightarrow> prices option fetch_result \<Rightarrow> state \<Rightarrow> prices option \<times> state" where
  "getCurrentPriceForAllCurrencies now answer st =
     (if isCurrentPriceCacheValid now st then (current_data st, st)
      else currentPrices_response now answer (currentPrices_request now st))"

subsection \<open>Historical prices (lines 764-851)\<close>

definition historicalPrice_catch ::
  "string \<Rightarrow> card option \<Rightarrow> int \<Rightarrow> state \<Rightarrow> price_result \<times> state" where
  "historicalPrice_catch errorMessage loanCard now st =
     (let (limited, st1) = detectRateLimitFromError errorMessage now st
      in if limited
         then
           (let st2 = (case loanCard of None \<Rightarrow> st1 | Some c \<Rightarrow> addPendingCard c st1);
                st3 = (if \<not> isRateLimited st2 then startRateLimitCountdown now st2 else st2)
            in (PriceNull, st3))
         else (PriceNull, st1))"

text \<open>
  \<open>getHistoricalPrice\<close> in the same three parts. As in the current-price call, a status
  that is neither ok nor 429 ends in the \<open>catch\<close> block through the TypeError of
  \<open>handleRateLimit\<close>. The table \<open>months\<close> is read at its own twelve keys only.
\<close>

definition historicalPrice_request :: "int \<Rightarrow> string \<Rightarrow> state \<Rightarrow> state" where
  "historicalPrice_request now coinGeckoDate st =
     (recordRequest now st)
       \<lparr>fetchLog := fetchLog st @
          [''https://api.coingecko.com/api/v3/coins/bitcoin/history?date='' @ coinGeckoDate]\<rparr>"

definition historicalPrice_response ::
  "int \<Rightarrow> string \<Rightarrow> string \<Rightarrow> card option \<Rightarrow> prices option fetch_result \<Rightarrow> state
     \<Rightarrow> price_result \<times> state" where
  "historicalPrice_response now coinGeckoDate cur loanCard answer st1 =
     (case answer of
        Throws errorMessage \<Rightarrow> historicalPrice_catch errorMessage loanCard now st1
      | Response status body \<Rightarrow>
          if \<not> response_ok status then
            (if status = 429 then
               (let st2 = (case loanCard of None \<Rightarrow> st1 | Some c \<Rightarrow> addPendingCard c st1)
                in (PriceNull, startRateLimitCountdown now st2))
             else (case handleRateLimit status now st1 of
                     Inl errorMessage \<Rightarrow> historicalPrice_catch errorMessage loanCard now st1
                   | Inr (_, st2) \<Rightarrow> (PriceNull, st2)))
          else
            (case body of
               None \<Rightarrow> historicalPrice_catch typeError_current_price loanCard now st1
             | Some current_price \<Rightarrow>
                 (let price = current_price (toLowerCase cur);
                      st2 = st1\<lparr>historical := (historical st1)
                                 (cacheKey coinGeckoDate cur \<mapsto>
                                    \<lparr>entry_price = price, entry_timestamp = now\<rparr>)\<rparr>;
                      st3 = (case loanCard of None \<Rightarrow> st2 | Some c \<Rightarrow> removePendingCard c st2)
                  in (price_of_entry price, st3))))"

text \<open>One whole call, given the answer of the service to the request it may issue.\<close>

definition getHistoricalPrice ::
  "int \<Rightarrow> string \<Rightarrow> string \<Rightarrow> card option \<Rightarrow> prices option fetch_result \<Rightarrow> state
     \<Rightarrow> price_result \<times> state" where
  "getHistoricalPrice now firefishDate cur loanCard answer st =
     (case convertFirefishDateToCoinGecko firefishDate of
        None \<Rightarrow> (PriceNull, st)
      | Some coinGeckoDate \<Rightarrow>
          (case historical st (cacheKey coinGeckoDate cur) of
             Some entry \<Rightarrow> (price_of_entry (entry_price entry), st)
           | None \<Rightarrow>
               historicalPrice_response now coinGeckoDate cur loanCard answer
                 (historicalPrice_request now coinGeckoDate st)))"

text \<open>\<open>window.firefishBTC.clearBTCCache\<close> (lines 1727-1733), a manual reset from the console.\<close>

definition clearBTCCache :: "state \<Rightarrow> state" where
  "clearBTCCache st =
     st\<lparr>current_data := None, current_timestamp := None, historical := Map.empty,
        apiBlocked := False, blockedUntil := None\<rparr>"

section \<open>Fetch pipeline: class FirefishBTCAnalyzer (lines 2012-2202)\<close>

text \<open>
  The first two statements of \<open>processFirefishLoanCard\<close> on a card not yet processed:
  the marker is set and the loading state is shown.
\<close>

definition begin_processing :: "card \<Rightarrow> state \<Rightarrow> state" where
  "begin_processing loanCard st =
     update_card loanCard showFirefishLoadingState
       (update_card loanCard (\<lambda>cv. cv\<lparr>processed := True\<rparr>) st)"

text \<open>
  One run of \<open>processFirefishLoanCard\<close> on a card, given the answers of the service to
  the two requests it may issue. No statement inside its \<open>try\<close> block throws in this
  model, so the \<open>catch\<close> block is not taken.
\<close>

definition processFirefishLoanCard ::
  "(string \<Rightarrow> jsnum \<Rightarrow> string option) \<Rightarrow> int \<Rightarrow> card
     \<Rightarrow> prices option fetch_result \<Rightarrow> prices option fetch_result \<Rightarrow> state \<Rightarrow> state" where
  "processFirefishLoanCard fmt now loanCard currentAnswer historicalAnswer st =
     (if processed (cards st loanCard) then st
      else
        let st2 = begin_processing loanCard st in
        case extracted (cards st2 loanCard) of
          None \<Rightarrow> update_card loanCard (\<lambda>cv. showFirefishError cv ''Could not extract loan data'') st2
        | Some loanData \<Rightarrow>
            (let (currentPrices, st3) = getCurrentPriceForAllCurrencies now currentAnswer st2 in
             case currentPrices of
               None \<Rightarrow>
                 update_card loanCard
                   (\<lambda>cv. showFirefishError cv ''Failed to fetch current BTC prices'') st3
             | Some byCurrency \<Rightarrow>
                 (let currentPrice =
                        (case byCurrency (toLowerCase (currency loanData)) of
                           None \<Rightarrow> NaN | Some p \<Rightarrow> Num p);
                      (historicalPrice, st4) =
                        getHistoricalPrice now (provisionDate loanData) (currency loanData)
                          (Some loanCard) historicalAnswer st3
                  in
                  if \<not> truthy historicalPrice then
                    (if isRateLimited st4 then st4
                     else update_card loanCard
                            (\<lambda>cv. showFirefishError cv
                                     (''Failed to fetch BTC price for '' @ provisionDate loanData)) st4)
                  else
                    (case calculateFirefishBTCPerformance fmt loanData currentPrice
                            (price_number historicalPrice) of
                       None \<Rightarrow>
                         update_card loanCard
                           (\<lambda>cv. showFirefishError cv ''Performance calculation failed'') st4
                     | Some perf \<Rightarrow>
                         update_card loanCard (\<lambda>cv. showFirefishBTCResults cv perf) st4))))"

text \<open>
  \<open>processQueuedCards\<close> up to its loop: it takes the queue as its work list, empties the
  queue and shows the loading state on the cards that have none. Each round of the loop
  is \<open>processQueuedCards_step\<close>; between two rounds the function waits, and other events
  may run.
\<close>

definition processQueuedCards_begin :: "state \<Rightarrow> card list \<times> state" where
  "processQueuedCards_begin st =
     (let cardsToProcess = processingQueue st;
          st1 = st\<lparr>processingQueue := []\<rparr>;
          st2 = foldl (\<lambda>s c. if \<not> list_ex has_loading (displays (cards s c))
                              then update_card c showFirefishLoadingState s else s)
                      st1 cardsToProcess
      in (cardsToProcess, st2))"


text \<open>
  \<open>processPendingCards\<close>: the pending cards are taken out of \<open>pendingCards\<close>, their
  processed marker is removed, they are added to the queue, and \<open>processQueuedCards\<close>
  starts on the queue. The result is the work list that \<open>processQueuedCards\<close> took.
\<close>

definition processPendingCards :: "state \<Rightarrow> card list \<times> state" where
  "processPendingCards st =
     (let pending = pendingCards st in
      if pending = [] then ([], st)
      else
        let st1 = st\<lparr>pendingCards := []\<rparr>;
            st2 = foldl (\<lambda>s c. (update_card c (\<lambda>cv. cv\<lparr>processed := False\<rparr>) s)
                                  \<lparr>processingQueue := set_add c (processingQueue s)\<rparr>)
                        st1 pending
        in processQueuedCards_begin st2)"

section \<open>The event loop\<close>

text \<open>
  Firing a pending timer at time \<open>now\<close>. The interval is re-armed one second later (it
  goes to the end of the timer list, a timeout is removed), then the closure runs:
  the countdown tick of \<open>startRateLimitCountdown\<close>, its cooldown timeout, or the delayed
  \<open>processPendingCards\<close> of the resolution callback. \<open>Date.now() - null\<close> is
  \<open>Date.now()\<close>.
\<close>

definition fire_timer :: "int \<Rightarrow> timer \<Rightarrow> state \<Rightarrow> state" where
  "fire_timer now t st =
     (case tm_action t of
        CountdownTick \<Rightarrow>
          (let st1 = st\<lparr>timers := filter (\<lambda>u. tm_id u \<noteq> tm_id t) (timers st)
                                     @ [t\<lparr>tm_due := tm_due t + 1000\<rparr>]\<rparr>;
               elapsed = now - (case rateLimitedAt st1 of None \<Rightarrow> 0 | Some a \<Rightarrow> a);
               remaining = max 0 (RATE_LIMIT_COOLDOWN - elapsed);
               remainingSeconds = (remaining + 999) div 1000
           in if remaining \<le> 0 then resolveRateLimit now st1
              else updateRateLimitDisplay remainingSeconds st1)
      | RetryTimeout \<Rightarrow> resolveRateLimit now (clearTimer (tm_id t) st)
      | ProcessPending \<Rightarrow> snd (processPendingCards (clearTimer (tm_id t) st)))"

text \<open>
  The timer that fires next: the one due first, the earlier registered one among equals.
\<close>

fun earliest :: "timer list \<Rightarrow> timer option" where
  "earliest [] = None"
| "earliest (t # ts) =
     (case earliest ts of
        None \<Rightarrow> Some t
      | Some u \<Rightarrow> if tm_due u < tm_due t then Some u else Some t)"

text \<open>
  Letting time pass until \<open>until\<close> with nothing else happening: the due timers fire in
  order, each at its due time. The first argument bounds the number of firings.
\<close>

fun run_timers :: "nat \<Rightarrow> int \<Rightarrow> state \<Rightarrow> state" where
  "run_timers 0 until st = st"
| "run_timers (Suc n) until st =
     (case earliest (timers st) of
        None \<Rightarrow> st
      | Some t \<Rightarrow> if tm_due t \<le> until then run_timers n until (fire_timer (tm_due t) t st) else st)"

text \<open>\<open>window.firefishBTC.forceRetry\<close> (lines 2476-2485).\<close>

definition forceRetry :: "int \<Rightarrow> state \<Rightarrow> state" where
  "forceRetry now st = (if isRateLimited st then resolveRateLimit now st else st)"

section \<open>Executions\<close>




section \<open>Example data\<close>

text \<open>
  The position of the specification's end-to-end scenario, a card that shows it, and a
  page on which every card is that card.
\<close>

definition example_loan :: loan where
  "example_loan =
     \<lparr>currency = ''EUR'', loanAmount = 10000, interestRate = 12.5,
      provisionDate = ''24 Nov 2024'', collateralBTC = 0.25\<rparr>"

definition example_card :: card_view where
  "example_card =
     \<lparr>bodyTexts = [''EUR 10,000 ACTIVE''], amountText = Some ''EUR 10,000'', hasDetails = True,
      extracted = Some example_loan, processed = False, displays = []\<rparr>"

definition example_page :: "card \<Rightarrow> card_view" where
  "example_page = (\<lambda>c. example_card)"

text \<open>A formatter for the examples: two decimals are not computed, the texts are fixed.\<close>

definition example_fmt :: "string \<Rightarrow> jsnum \<Rightarrow> string option" where
  "example_fmt cur v = (if v = Num 3750 then Some ''EUR 3,750.00'' else Some ''EUR'')"


section \<open>Invariant of the rate-limit coordinator\<close>

text \<open>
  \<open>has_drain\<close>: a delayed \<open>processPendingCards\<close> of the resolution callback is pending.
  \<open>pending_covered\<close>: there are pending cards only while the limited flag is set or such
  a call is pending. \<open>timers_wf\<close>: timer ids are distinct and below the next id to give
  out; \<open>handle_ok\<close>: a stored timer handle is an id given out before that belongs to no
  delayed \<open>processPendingCards\<close>.
\<close>

definition has_drain :: "state \<Rightarrow> bool" where
  "has_drain st = list_ex (\<lambda>t. tm_action t = ProcessPending) (timers st)"

definition pending_covered :: "state \<Rightarrow> bool" where
  "pending_covered st = (pendingCards st = [] \<or> isRateLimited st \<or> has_drain st)"

definition timers_wf :: "timer list \<Rightarrow> nat \<Rightarrow> bool" where
  "timers_wf ts next_id = (distinct (map tm_id ts) \<and> list_all (\<lambda>t. tm_id t < next_id) ts)"

definition handle_ok :: "nat option \<Rightarrow> timer list \<Rightarrow> nat \<Rightarrow> bool" where
  "handle_ok h ts next_id =
     (case h of
        None \<Rightarrow> True
      | Some i \<Rightarrow> i < next_id \<and> \<not> list_ex (\<lambda>t. tm_id t = i \<and> tm_action t = ProcessPending) ts)"

definition coordinator_wf :: "state \<Rightarrow> bool" where
  "coordinator_wf st =
     (onRateLimitResolved st \<and> timers_wf (timers st) (nextTimerId st) \<and>
      handle_ok (countdownInterval st) (timers st) (nextTimerId st) \<and>
      handle_ok (retryTimeout st) (timers st) (nextTimerId st) \<and>
      distinct (pendingCards st) \<and> distinct (processingQueue st))"

definition coordinator_inv :: "state \<Rightarrow> bool" where
  "coordinator_inv st = (coordinator_wf st \<and> pending_covered st)"

text \<open>What a test observes of the coordinator.\<close>

definition coordinator_view :: "state \<Rightarrow> bool \<times> card list \<times> int list \<times> timer list" where
  "coordinator_view st = (isRateLimited st, pendingCards st, resolvedLog st, timers st)"

section \<open>Properties of the request throttler\<close>

lemma length_slice_last: "length (slice_last n xs) \<le> n"
  by (simp add: slice_last_def)

lemma isRequestingTooFast_never: "isRequestingTooFast h now = False"
proof -
  have "length (filter (\<lambda>t. t > now - 30000) (slice_last 5 h)) \<le> length (slice_last 5 h)"
    by (rule length_filter_le)
  also have "\<dots> \<le> 5" by (rule length_slice_last)
  finally show ?thesis by (simp add: isRequestingTooFast_def Let_def)
qed

text \<open>
  C3 (the code departs from the claim). Six requests recorded at 0, 1000, ..., 5000 ms
  all lie within 30 seconds of \<open>now = 6000\<close>, so more than five recorded stamps are in
  the trailing window, and \<open>isRequestingTooFast\<close> still answers false: it counts only
  inside \<open>slice(-5)\<close>, which never holds more than five stamps.
\<close>

theorem C3_too_fast_not_flagged:
  "stamps_in_last_30s (foldl (\<lambda>h t. recordRequest_history t h) [] [0, 1000, 2000, 3000, 4000, 5000]) 6000 = 6
   \<and> isRequestingTooFast (foldl (\<lambda>h t. recordRequest_history t h) [] [0, 1000, 2000, 3000, 4000, 5000]) 6000 = False"
  by (simp add: stamps_in_last_30s_def isRequestingTooFast_def recordRequest_history_def slice_last_def Let_def)

section \<open>Properties of the input normalizer\<close>

lemma split_on_not_Nil: "split_on c s \<noteq> []"
  by (induction s) (auto split: list.splits)

lemma concat_split_on: "concat (split_on c s) = filter (\<lambda>x. x \<noteq> c) s"
proof (induction s)
  case Nil
  show ?case by simp
next
  case (Cons a s)
  then show ?case
    by (cases "split_on c s") (auto simp: split_on_not_Nil)
qed

lemma split_on_absent: "c \<notin> set s \<Longrightarrow> split_on c s = [s]"
  by (induction s) auto

lemma split_on_append: "split_on c (pre @ c # post) = split_on c pre @ split_on c post"
proof (induction pre)
  case Nil
  show ?case by simp
next
  case (Cons a pre)
  obtain p ps where sp: "split_on c pre = p # ps"
    using split_on_not_Nil [of c pre] by (cases "split_on c pre") auto
  with Cons show ?case by simp
qed

lemma lastIndexOf_absent: "c \<notin> set s \<Longrightarrow> lastIndexOf c s = - 1"
  by (induction s) (auto simp: Let_def)

lemma lastIndexOf_present: "c \<in> set s \<Longrightarrow> 0 \<le> lastIndexOf c s"
  by (induction s) (auto simp: Let_def)

lemma lastIndexOf_append:
  "lastIndexOf c (pre @ post) =
     (if c \<in> set post then int (length pre) + lastIndexOf c post else lastIndexOf c pre)"
proof (induction pre)
  case Nil
  show ?case by (simp add: lastIndexOf_absent)
next
  case (Cons a pre)
  show ?case
  proof (cases "c \<in> set post")
    case True
    with Cons lastIndexOf_present [of c post] show ?thesis by (simp add: Let_def)
  next
    case False
    with Cons show ?thesis by (simp add: Let_def)
  qed
qed

lemma lastIndexOf_split: "c \<notin> set post \<Longrightarrow> lastIndexOf c (pre @ c # post) = int (length pre)"
  by (simp add: lastIndexOf_append lastIndexOf_absent Let_def)

lemma filter_neq_absent: "c \<notin> set xs \<Longrightarrow> filter (\<lambda>x. x \<noteq> c) xs = xs"
  by (induction xs) auto

lemma replace_all_absent: "a \<notin> set xs \<Longrightarrow> replace_all a b xs = xs"
  by (induction xs) (auto simp: replace_all_def)

lemma replace_all_Cons: "replace_all a b (x # xs) = (if x = a then b else x) # replace_all a b xs"
  by (simp add: replace_all_def)

lemma replace_all_append: "replace_all a b (xs @ ys) = replace_all a b xs @ replace_all a b ys"
  by (simp add: replace_all_def)

lemma collapse_decimals:
  assumes "d \<noteq> t" and "d \<notin> set post" and "t \<notin> set post"
  shows "concat (butlast (split_on d (stripThousands (pre @ d # post) t))) @ [d] @
           last (split_on d (stripThousands (pre @ d # post) t))
         = filter (\<lambda>c. c \<noteq> d \<and> c \<noteq> t) pre @ [d] @ post"
proof -
  have s1: "stripThousands (pre @ d # post) t = filter (\<lambda>x. x \<noteq> t) pre @ d # post"
    using assms by (simp add: stripThousands_def concat_split_on filter_neq_absent)
  have parts: "split_on d (filter (\<lambda>x. x \<noteq> t) pre @ d # post)
               = split_on d (filter (\<lambda>x. x \<noteq> t) pre) @ [post]"
    using assms by (simp add: split_on_append split_on_absent)
  have "concat (split_on d (filter (\<lambda>x. x \<noteq> t) pre)) = filter (\<lambda>c. c \<noteq> d \<and> c \<noteq> t) pre"
    by (simp add: concat_split_on conj_commute)
  then show ?thesis by (simp add: s1 parts)
qed

lemma set_dropWhile_keep: "x \<in> set xs \<Longrightarrow> \<not> P x \<Longrightarrow> x \<in> set (dropWhile P xs)"
  by (induction xs) auto

lemma set_trim_keep: "x \<in> set s \<Longrightarrow> \<not> is_space x \<Longrightarrow> x \<in> set (trim s)"
  by (simp add: trim_def set_dropWhile_keep)

lemma comma_not_space: "\<not> is_space (CHR '','')" and dot_not_space: "\<not> is_space (CHR ''.'')"
  by (simp_all add: is_space_def)

lemma sep_in_cleaned:
  "CHR '','' \<in> set text \<Longrightarrow> CHR '','' \<in> set (keep_numeric (trim text))"
  "CHR ''.'' \<in> set text \<Longrightarrow> CHR ''.'' \<in> set (keep_numeric (trim text))"
  by (simp_all add: keep_numeric_def set_trim_keep comma_not_space dot_not_space)

lemma count_char_pos: "(count_char s c > 0) = (c \<in> set s)"
  by (induction s) (auto simp: count_char_def)

lemma both_separators_code:
  assumes c: "CHR '','' \<in> set s" and d: "CHR ''.'' \<in> set s"
  shows "(let lastComma = lastIndexOf (CHR '','') s;
                 lastDot = lastIndexOf (CHR ''.'') s;
                 decimalSep = (if lastComma > lastDot then CHR '','' else CHR ''.'');
                 thousandsSep = (if decimalSep = CHR '','' then CHR ''.'' else CHR '','');
                 s1 = stripThousands s thousandsSep;
                 parts = split_on decimalSep s1;
                 decimalPart = last parts;
                 s2 = concat (butlast parts) @ [decimalSep] @ decimalPart
             in (if decimalSep = CHR '','' then replace_all (CHR '','') (CHR ''.'') s2 else s2))
         = spec_rightmost_decimal s"
proof (cases "lastIndexOf (CHR '','') s > lastIndexOf (CHR ''.'') s")
  case True
  obtain pre post where s: "s = pre @ CHR '','' # post" and np: "CHR '','' \<notin> set post"
    using split_list_last [OF c] by blast
  have lc: "lastIndexOf (CHR '','') s = int (length pre)"
    by (simp add: s lastIndexOf_split np)
  have dp: "CHR ''.'' \<notin> set post"
  proof
    assume "CHR ''.'' \<in> set post"
    then have "lastIndexOf (CHR ''.'') s = int (length pre) + lastIndexOf (CHR ''.'') (CHR '','' # post)"
      by (simp add: s lastIndexOf_append del: lastIndexOf.simps)
    moreover have "0 \<le> lastIndexOf (CHR ''.'') (CHR '','' # post)"
      using \<open>CHR ''.'' \<in> set post\<close> by (intro lastIndexOf_present) simp
    ultimately show False using True lc by simp
  qed
  have ld: "lastIndexOf (CHR ''.'') s < int (length pre)" using True lc by simp
  have rs: "rightmost_sep s = length pre"
    using lc ld by (simp add: rightmost_sep_def)
  have "CHR '','' \<notin> set (filter (\<lambda>c. c \<noteq> CHR '','' \<and> c \<noteq> CHR ''.'') pre)"
    by simp
  then have "replace_all (CHR '','') (CHR ''.'')
          (filter (\<lambda>c. c \<noteq> CHR '','' \<and> c \<noteq> CHR ''.'') pre @ [CHR '',''] @ post)
        = filter (\<lambda>c. c \<noteq> CHR '','' \<and> c \<noteq> CHR ''.'') pre @ ''.'' @ post"
    using np by (simp add: replace_all_append replace_all_Cons replace_all_absent)
  moreover have "filter (\<lambda>c. c \<noteq> CHR '','' \<and> c \<noteq> CHR ''.'') pre = filter (\<lambda>c. \<not> is_sep c) pre"
    by (auto simp: is_sep_def intro!: filter_cong)
  ultimately have rep: "replace_all (CHR '','') (CHR ''.'')
          (filter (\<lambda>c. c \<noteq> CHR '','' \<and> c \<noteq> CHR ''.'') pre @ [CHR '',''] @ post)
        = filter (\<lambda>c. \<not> is_sep c) pre @ ''.'' @ post"
    by simp
  have spec: "spec_rightmost_decimal s = filter (\<lambda>c. \<not> is_sep c) pre @ ''.'' @ post"
    unfolding spec_rightmost_decimal_def rs by (simp add: s)
  have cd: "concat (butlast (split_on (CHR '','') (stripThousands s (CHR ''.'')))) @ [CHR '',''] @
              last (split_on (CHR '','') (stripThousands s (CHR ''.'')))
            = filter (\<lambda>c. c \<noteq> CHR '','' \<and> c \<noteq> CHR ''.'') pre @ [CHR '',''] @ post"
    unfolding s using np dp by (intro collapse_decimals) simp_all
  show ?thesis
    unfolding Let_def spec using True by (simp add: cd [simplified] rep [simplified])
next
  case False
  obtain pre post where s: "s = pre @ CHR ''.'' # post" and np: "CHR ''.'' \<notin> set post"
    using split_list_last [OF d] by blast
  have ld: "lastIndexOf (CHR ''.'') s = int (length pre)"
    by (simp add: s lastIndexOf_split np)
  have cp: "CHR '','' \<notin> set post"
  proof
    assume "CHR '','' \<in> set post"
    then have "lastIndexOf (CHR '','') s = int (length pre) + lastIndexOf (CHR '','') (CHR ''.'' # post)"
      by (simp add: s lastIndexOf_append del: lastIndexOf.simps)
    moreover have "0 < lastIndexOf (CHR '','') (CHR ''.'' # post)"
      using \<open>CHR '','' \<in> set post\<close> lastIndexOf_present [of "CHR '',''" post] by (simp add: Let_def)
    ultimately show False using False ld by simp
  qed
  have lc: "lastIndexOf (CHR '','') s \<le> int (length pre)" using False ld by simp
  have rs: "rightmost_sep s = length pre"
    using lc ld by (simp add: rightmost_sep_def)
  have fl: "filter (\<lambda>c. c \<noteq> CHR ''.'' \<and> c \<noteq> CHR '','') pre = filter (\<lambda>c. \<not> is_sep c) pre"
    by (auto simp: is_sep_def intro!: filter_cong)
  have spec: "spec_rightmost_decimal s = filter (\<lambda>c. \<not> is_sep c) pre @ ''.'' @ post"
    unfolding spec_rightmost_decimal_def rs by (simp add: s)
  have cd: "concat (butlast (split_on (CHR ''.'') (stripThousands s (CHR '','')))) @ [CHR ''.''] @
              last (split_on (CHR ''.'') (stripThousands s (CHR '','')))
            = filter (\<lambda>c. c \<noteq> CHR ''.'' \<and> c \<noteq> CHR '','') pre @ [CHR ''.''] @ post"
    unfolding s using np cp by (intro collapse_decimals) simp_all
  show ?thesis
    unfolding Let_def spec using False by (simp add: cd [simplified] fl)
qed

text \<open>
  C6. Whenever both a comma and a dot occur in the text, \<open>parseNumberFromText\<close> reads
  the rightmost separator occurrence as the decimal point and drops every separator
  before it: it returns what \<open>parseFloat\<close> makes of the digits before that occurrence, a
  dot, and the characters after it (inner minus signs removed). In particular
  \<open>1.234,56\<close> and \<open>1,234.56\<close> both parse to 1234.56.
\<close>

theorem C6_rightmost_separator_is_decimal:
  assumes "CHR '','' \<in> set text" and "CHR ''.'' \<in> set text"
  shows "parseNumberFromText text =
           parseFloat (strip_inner_minus (spec_rightmost_decimal (keep_numeric (trim text))))"
proof -
  let ?s = "keep_numeric (trim text)"
  have c: "CHR '','' \<in> set ?s" and d: "CHR ''.'' \<in> set ?s"
    using assms by (simp_all add: sep_in_cleaned)
  then have ne: "?s \<noteq> []" "text \<noteq> []" using assms by auto
  have cnt: "count_char ?s (CHR '','') > 0" "count_char ?s (CHR ''.'') > 0"
    using c d by (simp_all add: count_char_pos)
  show ?thesis
    using both_separators_code [OF c d] ne cnt
    unfolding parseNumberFromText_def Let_def by simp
qed

lemmas normalizer_eval_defs =
  parseNumberFromText_def keep_numeric_def trim_def is_space_def count_char_def
  stripThousands_def strip_inner_minus_def parseFloat_def is_digit_def digits_val_def
  digit_val_def replace_all_def spec_rightmost_decimal_def rightmost_sep_def is_sep_def Let_def

theorem C6_rightmost_separator_is_decimal_witness:
  "parseNumberFromText ''1.234,56'' = Num 1234.56 \<and> parseNumberFromText ''1,234.56'' = Num 1234.56"
proof -
  have a: "parseFloat (strip_inner_minus (spec_rightmost_decimal (keep_numeric (trim ''1.234,56''))))
           = Num 1234.56"
    by (simp add: normalizer_eval_defs)
  have b: "parseFloat (strip_inner_minus (spec_rightmost_decimal (keep_numeric (trim ''1,234.56''))))
           = Num 1234.56"
    by (simp add: normalizer_eval_defs)
  have "parseNumberFromText ''1.234,56'' = Num 1234.56"
    using C6_rightmost_separator_is_decimal [of "''1.234,56''"] a by simp
  moreover have "parseNumberFromText ''1,234.56'' = Num 1234.56"
    using C6_rightmost_separator_is_decimal [of "''1,234.56''"] b by simp
  ultimately show ?thesis by simp
qed

lemma parse_examples_single_separator:
  "parseNumberFromText ''10,000'' = Num 10000"
  "parseNumberFromText ''12,5'' = Num 12.5"
  "parseNumberFromText ''12,50'' = Num 12.5"
  "parseNumberFromText ''12.50'' = Num 12.5"
  "parseNumberFromText ''1.234'' = Num 1234"
  by (simp_all add: normalizer_eval_defs)

text \<open>
  C7 (the code departs from the claim). With dots only and two digits after the last
  dot, the trailing group is not read as the decimal part when there are several dots:
  \<open>1.234.56\<close> goes to \<open>parseFloat\<close> unchanged and comes back as 1.234. The comma branch
  has the case the dot branch lacks: \<open>1,234,56\<close> parses to 1234.56.
\<close>

theorem C7_dots_two_trailing_digits:
  "parseNumberFromText ''1.234.56'' = Num 1.234 \<and> parseNumberFromText ''1,234,56'' = Num 1234.56"
  by (simp add: normalizer_eval_defs)

section \<open>Properties of the performance calculator\<close>



section \<open>Properties of the price cache\<close>

text \<open>
  In the branch of the price calls for a status that is neither ok nor 429,
  \<open>handleRateLimit\<close> throws.
\<close>

lemma handleRateLimit_not_429:
  "status \<noteq> 429 \<Longrightarrow> handleRateLimit status now st = Inl typeError_includes"
  by (simp add: handleRateLimit_def)

lemmas price_call_defs =
  getHistoricalPrice_def historicalPrice_response_def historicalPrice_request_def
  getCurrentPriceForAllCurrencies_def currentPrices_response_def currentPrices_request_def

text \<open>The loops over the pending cards rewrite the cards and nothing else.\<close>

lemma foldl_update_card:
  "foldl (\<lambda>s c. update_card c g s) st cs
     = st\<lparr>cards := foldl (\<lambda>p c. p(c := g (p c))) (cards st) cs\<rparr>"
proof (induction cs arbitrary: st)
  case Nil
  show ?case by simp
next
  case (Cons c cs)
  show ?case by (simp add: Cons.IH) (simp add: update_card_def)
qed

lemma updateRateLimitDisplay_shape:
  "updateRateLimitDisplay n st
     = st\<lparr>cards := foldl (\<lambda>p c. p(c := showRateLimitMessage (p c) n)) (cards st) (pendingCards st)\<rparr>"
  by (simp add: updateRateLimitDisplay_def foldl_update_card)

lemma historical_schedule [simp]: "historical (schedule d a st) = historical st"
  by (simp add: schedule_def)

lemma historical_clearTimer [simp]: "historical (clearTimer i st) = historical st"
  by (simp add: clearTimer_def)

lemma historical_updateRateLimitDisplay [simp]: "historical (updateRateLimitDisplay n st) = historical st"
  by (simp add: updateRateLimitDisplay_shape)

lemma historical_startRateLimitCountdown [simp]:
  "historical (startRateLimitCountdown now st) = historical st"
  by (simp add: startRateLimitCountdown_def Let_def split: option.splits)

lemma historical_resolveRateLimit [simp]: "historical (resolveRateLimit now st) = historical st"
  by (simp add: resolveRateLimit_def foldl_update_card Let_def split: option.splits)

lemma historical_update_card [simp]: "historical (update_card c f st) = historical st"
  by (simp add: update_card_def)

lemma historical_addPendingCard [simp]: "historical (addPendingCard c st) = historical st"
  by (simp add: addPendingCard_def Let_def)

lemma historical_removePendingCard [simp]: "historical (removePendingCard c st) = historical st"
  by (simp add: removePendingCard_def)

lemma historical_recordRequest [simp]: "historical (recordRequest now st) = historical st"
  by (simp add: recordRequest_def)

lemma historical_detect [simp]:
  "historical (snd (detectRateLimitFromError m now st)) = historical st"
  by (simp add: detectRateLimitFromError_def getRecentRequestCount_def Let_def split: prod.splits)

lemma historical_currentPrices_catch [simp]:
  "historical (snd (currentPrices_catch m now st)) = historical st"
proof -
  obtain b st1 where d: "detectRateLimitFromError m now st = (b, st1)" by (cases "detectRateLimitFromError m now st")
  then have "historical st1 = historical st" using historical_detect [of m now st] by simp
  then show ?thesis by (simp add: currentPrices_catch_def d)
qed

lemma historical_historicalPrice_catch [simp]:
  "historical (snd (historicalPrice_catch m c now st)) = historical st"
proof -
  obtain b st1 where d: "detectRateLimitFromError m now st = (b, st1)" by (cases "detectRateLimitFromError m now st")
  then have "historical st1 = historical st" using historical_detect [of m now st] by simp
  then show ?thesis by (simp add: historicalPrice_catch_def d Let_def split: option.splits)
qed



lemma processQueuedCards_begin_shape:
  "\<exists>page. snd (processQueuedCards_begin st) = st\<lparr>processingQueue := [], cards := page\<rparr>"
proof -
  have "\<exists>page. foldl (\<lambda>s c. if \<not> list_ex has_loading (displays (cards s c))
                              then update_card c showFirefishLoadingState s else s) s0 cs
               = s0\<lparr>cards := page\<rparr>" for s0 cs
  proof (induction cs arbitrary: s0)
    case Nil
    have "s0 = s0\<lparr>cards := cards s0\<rparr>" by simp
    then show ?case by (metis foldl_Nil)
  next
    case (Cons c cs)
    show ?case
    proof (cases "list_ex has_loading (displays (cards s0 c))")
      case True
      then show ?thesis using Cons [of s0] by simp
    next
      case False
      obtain page where "foldl (\<lambda>s c. if \<not> list_ex has_loading (displays (cards s c))
                              then update_card c showFirefishLoadingState s else s)
                           (update_card c showFirefishLoadingState s0) cs
               = (update_card c showFirefishLoadingState s0)\<lparr>cards := page\<rparr>"
        using Cons [of "update_card c showFirefishLoadingState s0"] by blast
      then show ?thesis using False by (auto simp: update_card_def)
    qed
  qed
  from this [of "st\<lparr>processingQueue := []\<rparr>" "processingQueue st"]
  show ?thesis by (auto simp: processQueuedCards_begin_def Let_def)
qed

lemma requeue_shape:
  "\<exists>page. foldl (\<lambda>s c. (update_card c (\<lambda>cv. cv\<lparr>processed := False\<rparr>) s)
                                  \<lparr>processingQueue := set_add c (processingQueue s)\<rparr>) s0 cs
         = s0\<lparr>processingQueue := foldl (\<lambda>q c. set_add c q) (processingQueue s0) cs, cards := page\<rparr>"
proof (induction cs arbitrary: s0)
  case Nil
  have "s0 = s0\<lparr>processingQueue := processingQueue s0, cards := cards s0\<rparr>" by simp
  then show ?case by (metis foldl_Nil)
next
  case (Cons c cs)
  let ?s1 = "(update_card c (\<lambda>cv. cv\<lparr>processed := False\<rparr>) s0)\<lparr>processingQueue := set_add c (processingQueue s0)\<rparr>"
  obtain page where "foldl (\<lambda>s c. (update_card c (\<lambda>cv. cv\<lparr>processed := False\<rparr>) s)
                                  \<lparr>processingQueue := set_add c (processingQueue s)\<rparr>) ?s1 cs
         = ?s1\<lparr>processingQueue := foldl (\<lambda>q c. set_add c q) (processingQueue ?s1) cs, cards := page\<rparr>"
    using Cons [of ?s1] by blast
  then show ?case by (auto simp: update_card_def)
qed

lemma processPendingCards_shape:
  "pendingCards st = [] \<and> processPendingCards st = ([], st) \<or>
   (\<exists>page. processPendingCards st =
      (foldl (\<lambda>q c. set_add c q) (processingQueue st) (pendingCards st),
       st\<lparr>pendingCards := [], processingQueue := [], cards := page\<rparr>))"
proof (cases "pendingCards st = []")
  case True
  then show ?thesis by (simp add: processPendingCards_def)
next
  case False
  obtain p1 where p1: "foldl (\<lambda>s c. (update_card c (\<lambda>cv. cv\<lparr>processed := False\<rparr>) s)
                                  \<lparr>processingQueue := set_add c (processingQueue s)\<rparr>)
                         (st\<lparr>pendingCards := []\<rparr>) (pendingCards st)
         = (st\<lparr>pendingCards := []\<rparr>)\<lparr>processingQueue := foldl (\<lambda>q c. set_add c q) (processingQueue st) (pendingCards st), cards := p1\<rparr>"
    using requeue_shape [of "st\<lparr>pendingCards := []\<rparr>" "pendingCards st"] by auto
  let ?s2 = "st\<lparr>pendingCards := [], processingQueue := foldl (\<lambda>q c. set_add c q) (processingQueue st) (pendingCards st), cards := p1\<rparr>"
  obtain p2 where p2: "snd (processQueuedCards_begin ?s2) = ?s2\<lparr>processingQueue := [], cards := p2\<rparr>"
    using processQueuedCards_begin_shape [of ?s2] by blast
  have fst: "fst (processQueuedCards_begin ?s2) = foldl (\<lambda>q c. set_add c q) (processingQueue st) (pendingCards st)"
    by (simp add: processQueuedCards_begin_def Let_def)
  have "processPendingCards st = processQueuedCards_begin ?s2"
    using False p1 by (simp add: processPendingCards_def Let_def)
  then show ?thesis using p2 fst by (auto simp: prod_eq_iff)
qed




lemma historical_queue_begin [simp]: "historical (snd (processQueuedCards_begin st)) = historical st"
  using processQueuedCards_begin_shape [of st] by auto

lemma historical_processPending [simp]: "historical (snd (processPendingCards st)) = historical st"
  using processPendingCards_shape [of st] by auto

lemma historical_fire_timer [simp]: "historical (fire_timer now t st) = historical st"
  by (simp add: fire_timer_def Let_def split: timer_action.splits)

lemma historical_forceRetry [simp]: "historical (forceRetry now st) = historical st"
  by (simp add: forceRetry_def)



lemmas client_eval_defs =
  price_call_defs convertFirefishDateToCoinGecko_def
  cacheKey_def months_def padStart2_def toLowerCase_def toLowerCase_char_def response_ok_def
  isCurrentPriceCacheValid_def recordRequest_def recordRequest_history_def removePendingCard_def
  set_delete_def initial_state_def setRateLimitCallback_def Let_def





section \<open>Properties of the fetch pipeline\<close>

lemma hasDetails_showRateLimitMessage [simp]: "hasDetails (showRateLimitMessage cv n) = hasDetails cv"
  by (simp add: showRateLimitMessage_def)

lemma hasDetails_schedule [simp]: "cards (schedule d a st) = cards st"
  by (simp add: schedule_def)

lemma cards_clearTimer [simp]: "cards (clearTimer i st) = cards st"
  by (simp add: clearTimer_def)

lemma hasDetails_foldl:
  "(\<And>cv. hasDetails (g cv) = hasDetails cv) \<Longrightarrow>
   hasDetails (foldl (\<lambda>p x. p(x := g (p x))) page cs c) = hasDetails (page c)"
  by (induction cs arbitrary: page) simp_all

lemma hasDetails_updateRateLimitDisplay [simp]:
  "hasDetails (cards (updateRateLimitDisplay n st) c) = hasDetails (cards st c)"
  using hasDetails_foldl [of "\<lambda>cv. showRateLimitMessage cv n" "cards st" "pendingCards st" c]
  by (simp add: updateRateLimitDisplay_shape)

lemma hasDetails_start [simp]:
  "hasDetails (cards (startRateLimitCountdown now st) c) = hasDetails (cards st c)"
  by (simp add: startRateLimitCountdown_def Let_def split: option.splits)

lemma hasDetails_addPendingCard [simp]:
  "hasDetails (cards (addPendingCard x st) c) = hasDetails (cards st c)"
  by (simp add: addPendingCard_def update_card_def Let_def)

lemma cards_removePendingCard [simp]: "cards (removePendingCard x st) = cards st"
  by (simp add: removePendingCard_def)

lemma cards_recordRequest [simp]: "cards (recordRequest now st) = cards st"
  by (simp add: recordRequest_def)

lemma cards_detect [simp]: "cards (snd (detectRateLimitFromError m now st)) = cards st"
  by (simp add: detectRateLimitFromError_def getRecentRequestCount_def Let_def split: prod.splits)

lemma hasDetails_historicalPrice_catch [simp]:
  "hasDetails (cards (snd (historicalPrice_catch m x now st)) c) = hasDetails (cards st c)"
proof -
  obtain b st1 where d: "detectRateLimitFromError m now st = (b, st1)"
    by (cases "detectRateLimitFromError m now st")
  then have "cards st1 = cards st" using cards_detect [of m now st] by simp
  then show ?thesis by (simp add: historicalPrice_catch_def d Let_def split: option.splits)
qed

lemma hasDetails_getHistorical [simp]:
  "hasDetails (cards (snd (getHistoricalPrice now d cur x answer st)) c) = hasDetails (cards st c)"
  by (simp add: price_call_defs handleRateLimit_def Let_def
           split: fetch_result.splits option.splits)

lemma hasDetails_currentPrices_catch [simp]:
  "hasDetails (cards (snd (currentPrices_catch m now st)) c) = hasDetails (cards st c)"
proof -
  obtain b st1 where d: "detectRateLimitFromError m now st = (b, st1)"
    by (cases "detectRateLimitFromError m now st")
  then have "cards st1 = cards st" using cards_detect [of m now st] by simp
  then show ?thesis by (simp add: currentPrices_catch_def d)
qed

lemma hasDetails_getCurrent [simp]:
  "hasDetails (cards (snd (getCurrentPriceForAllCurrencies now answer st)) c) = hasDetails (cards st c)"
  by (simp add: price_call_defs handleRateLimit_def Let_def
           split: fetch_result.splits)

lemma hasDetails_begin_processing [simp]:
  "hasDetails (cards (begin_processing x st) c) = hasDetails (cards st c)"
  by (simp add: begin_processing_def update_card_def showFirefishLoadingState_def)

lemma no_results_after_remove: "\<not> list_ex is_results (remove_loading_results ds)"
  by (induction ds rule: remove_loading_results.induct) simp_all

text \<open>
  C5. A card not yet processed, with a details section and valid loan data, whose
  current prices arrive and whose historical price resolves to 0 (from the cache or from
  the service) while the coordinator is not limited: the pipeline shows the error widget
  on it, and no results widget remains on the card, so no value computed from a division
  by zero is published.
\<close>

theorem C5_zero_historical_price_fails:
  assumes "\<not> processed (cards st c)"
    and "hasDetails (cards st c)"
    and "extracted (cards st c) = Some loanData"
    and "getCurrentPriceForAllCurrencies now currentAnswer (begin_processing c st) = (Some byCurrency, st3)"
    and "getHistoricalPrice now (provisionDate loanData) (currency loanData) (Some c) historicalAnswer st3
           = (PriceNum 0, st4)"
    and "\<not> isRateLimited st4"
  shows "displays (cards (processFirefishLoanCard fmt now c currentAnswer historicalAnswer st) c)
           = ErrorDiv (''Failed to fetch BTC price for '' @ provisionDate loanData)
               # remove_loading_results (displays (cards st4 c))
         \<and> \<not> list_ex is_results
               (displays (cards (processFirefishLoanCard fmt now c currentAnswer historicalAnswer st) c))"
proof -
  have ex: "extracted (cards (begin_processing c st) c) = Some loanData"
    using assms(3) by (simp add: begin_processing_def update_card_def showFirefishLoadingState_def)
  have "hasDetails (cards st3 c)"
    using hasDetails_getCurrent [of now currentAnswer "begin_processing c st" c] assms(2,4) by simp
  then have hd4: "hasDetails (cards st4 c)"
    using hasDetails_getHistorical [of now "provisionDate loanData" "currency loanData" "Some c"
            historicalAnswer st3 c] assms(5) by simp
  have run: "processFirefishLoanCard fmt now c currentAnswer historicalAnswer st
             = update_card c (\<lambda>cv. showFirefishError cv
                                     (''Failed to fetch BTC price for '' @ provisionDate loanData)) st4"
    using assms(1,4,5,6) ex by (simp add: processFirefishLoanCard_def Let_def)
  show ?thesis
    unfolding run using hd4
    by (simp add: update_card_def showFirefishError_def insert_display_def no_results_after_remove)
qed


lemmas pipeline_eval_defs =
  begin_processing_def update_card_def showFirefishLoadingState_def showFirefishError_def
  insert_display_def remove_loading_results_error_def example_page_def example_card_def
  example_loan_def

theorem C5_zero_historical_price_fails_witness:
  "displays (cards (processFirefishLoanCard example_fmt 1000 0
                      (Response 200 (Some [''eur'' \<mapsto> 90000]))
                      (Response 200 (Some [''eur'' \<mapsto> 0]))
                      (initial_state example_page)) 0)
     = [ErrorDiv ''Failed to fetch BTC price for 24 Nov 2024'']"
proof -
  let ?S = "initial_state example_page"
  let ?ca = "Response 200 (Some [''eur'' \<mapsto> (90000::real)])"
  let ?ha = "Response 200 (Some [''eur'' \<mapsto> (0::real)])"
  let ?r3 = "getCurrentPriceForAllCurrencies 1000 ?ca (begin_processing 0 ?S)"
  let ?r4 = "getHistoricalPrice 1000 (provisionDate example_loan) (currency example_loan) (Some 0) ?ha (snd ?r3)"
  have a1: "\<not> processed (cards ?S 0)"
    by (simp add: initial_state_def example_page_def example_card_def)
  have a2: "hasDetails (cards ?S 0)"
    by (simp add: initial_state_def example_page_def example_card_def)
  have a3: "extracted (cards ?S 0) = Some example_loan"
    by (simp add: initial_state_def example_page_def example_card_def)
  have f3: "fst ?r3 = Some [''eur'' \<mapsto> 90000]"
    by (simp add: client_eval_defs pipeline_eval_defs)
  have a4: "?r3 = (Some [''eur'' \<mapsto> 90000], snd ?r3)"
    using f3 by (simp add: prod_eq_iff)
  have f4: "fst ?r4 = PriceNum 0"
    by (simp add: client_eval_defs pipeline_eval_defs)
  have a5: "?r4 = (PriceNum 0, snd ?r4)"
    using f4 by (simp add: prod_eq_iff)
  have a6: "\<not> isRateLimited (snd ?r4)"
    by (simp add: client_eval_defs pipeline_eval_defs)
  have rest: "remove_loading_results (displays (cards (snd ?r4) 0)) = []"
    by (simp add: client_eval_defs pipeline_eval_defs)
  have date: "provisionDate example_loan = ''24 Nov 2024''"
    by (simp add: example_loan_def)
  show ?thesis
    using C5_zero_historical_price_fails [OF a1 a2 a3 a4 a5 a6, of example_fmt] rest date
    by simp
qed

section \<open>Properties of the portfolio aggregator\<close>
















section \<open>Properties of the rate-limit coordinator\<close>

lemmas inv_defs = coordinator_inv_def coordinator_wf_def pending_covered_def timers_wf_def
  handle_ok_def has_drain_def list_all_iff list_ex_iff


lemma set_set_add [simp]: "set (set_add c xs) = insert c (set xs)"
  by (auto simp: set_add_def)

lemma set_add_not_Nil [simp]: "set_add c xs \<noteq> []"
  by (auto simp: set_add_def)


lemma start_fields [simp]:
  "isRateLimited (startRateLimitCountdown now st)"
  "pendingCards (startRateLimitCountdown now st) = pendingCards st"
  "processingQueue (startRateLimitCountdown now st) = processingQueue st"
  "onRateLimitResolved (startRateLimitCountdown now st) = onRateLimitResolved st"
  "nextTimerId (startRateLimitCountdown now st) = Suc (Suc (nextTimerId st))"
  "countdownInterval (startRateLimitCountdown now st) = Some (nextTimerId st)"
  "retryTimeout (startRateLimitCountdown now st) = Some (Suc (nextTimerId st))"
  by (simp_all add: startRateLimitCountdown_def updateRateLimitDisplay_shape schedule_def
        clearTimer_def Let_def split: option.splits)





lemma resolve_fields [simp]:
  "\<not> isRateLimited (resolveRateLimit now st)"
  "pendingCards (resolveRateLimit now st) = pendingCards st"
  "processingQueue (resolveRateLimit now st) = processingQueue st"
  "onRateLimitResolved (resolveRateLimit now st) = onRateLimitResolved st"
  "nextTimerId (resolveRateLimit now st)
     = (if onRateLimitResolved st then Suc (nextTimerId st) else nextTimerId st)"
  "countdownInterval (resolveRateLimit now st) = None"
  "retryTimeout (resolveRateLimit now st) = None"
  by (simp_all add: resolveRateLimit_def foldl_update_card schedule_def clearTimer_def Let_def
        split: option.splits)






lemma inv_requestHistory [simp]:
  "coordinator_wf (st\<lparr>requestHistory := h\<rparr>) = coordinator_wf st"
  "pending_covered (st\<lparr>requestHistory := h\<rparr>) = pending_covered st"
  by (simp_all add: inv_defs)

lemma inv_recordRequest [simp]:
  "coordinator_wf (recordRequest now st) = coordinator_wf st"
  "pending_covered (recordRequest now st) = pending_covered st"
  by (simp_all add: inv_defs recordRequest_def)

lemma inv_fetchLog [simp]:
  "coordinator_wf (st\<lparr>fetchLog := l\<rparr>) = coordinator_wf st"
  "pending_covered (st\<lparr>fetchLog := l\<rparr>) = pending_covered st"
  by (simp_all add: inv_defs)

lemma inv_cards [simp]:
  "coordinator_wf (st\<lparr>cards := p\<rparr>) = coordinator_wf st"
  "pending_covered (st\<lparr>cards := p\<rparr>) = pending_covered st"
  by (simp_all add: inv_defs)

lemma inv_update_card [simp]:
  "coordinator_wf (update_card c f st) = coordinator_wf st"
  "pending_covered (update_card c f st) = pending_covered st"
  by (simp_all add: update_card_def)


lemma addPending_limited [simp]: "isRateLimited (addPendingCard c st) = isRateLimited st"
  by (simp add: addPendingCard_def update_card_def Let_def)



lemma inv_historical_update [simp]:
  "coordinator_inv (st\<lparr>historical := m\<rparr>) = coordinator_inv st"
  by (simp add: inv_defs)

lemma inv_current_update [simp]:
  "coordinator_inv (st\<lparr>current_data := d, current_timestamp := ts\<rparr>) = coordinator_inv st"
  by (simp add: inv_defs)





lemma inv_recordRequest_fetch [simp]:
  "coordinator_inv ((recordRequest now st)\<lparr>fetchLog := l\<rparr>) = coordinator_inv st"
  by (simp add: coordinator_inv_def)








lemma inv_update_card' [simp]: "coordinator_inv (update_card c f st) = coordinator_inv st"
  by (simp add: coordinator_inv_def)



















lemma run_timers_unfold:
  "0 < n \<Longrightarrow> run_timers n until st =
     (case earliest (timers st) of
        None \<Rightarrow> st
      | Some t \<Rightarrow> if tm_due t \<le> until then run_timers (n - 1) until (fire_timer (tm_due t) t st) else st)"
  by (cases n) (auto split: option.splits)

lemmas coordinator_eval_defs =
  coordinator_view_def startRateLimitCountdown_def resolveRateLimit_def updateRateLimitDisplay_def
  update_card_def schedule_def clearTimer_def addPendingCard_def set_add_def fire_timer_def
  RATE_LIMIT_COOLDOWN_def processPendingCards_def processQueuedCards_begin_def
  detectRateLimitFromError_def getRecentRequestCount_def handleRateLimit_def
  historicalPrice_catch_def currentPrices_catch_def showRateLimitMessage_def
  remove_loading_results_error_def insert_display_def example_page_def example_card_def





lemma processed_showLoading [simp]: "processed (showFirefishLoadingState cv) = processed cv"
  by (simp add: showFirefishLoadingState_def)









text \<open>
  C2 (the code departs from the claim). A 429 on a current-price request at time 0 starts
  the countdown; the timers run until 30500 ms, the coordinator is still limited, and a
  second 429 starts the countdown again. \<open>startRateLimitCountdown\<close> clears the running
  interval but not the first cooldown timeout, which fires at 60000 ms and resolves the
  rate limit: the resolution callback is invoked once, at 60000 ms, not at 90500 ms, and
  no timer is left afterwards.
\<close>

theorem C2_second_trigger_resolves_at_first_deadline:
  "isRateLimited (run_timers 100 30500
       (snd (getCurrentPriceForAllCurrencies 0 (Response 429 None)
               (setRateLimitCallback (initial_state example_page))))) = True
   \<and> coordinator_view (run_timers 100 200000
       (snd (getCurrentPriceForAllCurrencies 30500 (Response 429 None)
          (run_timers 100 30500
             (snd (getCurrentPriceForAllCurrencies 0 (Response 429 None)
                     (setRateLimitCallback (initial_state example_page))))))))
     = (False, [], [60000], [])"
  by (simp add: client_eval_defs coordinator_eval_defs run_timers_unfold)

end
